theory Spec2Isabelle
  imports Main "HOL-Library.Sublist"
begin

section \<open>Strings of the JavaScript runtime\<close>

text \<open>
  The source is TypeScript. A JavaScript string is modelled as a \<open>string\<close> (a list of
  characters, which are the code units below 256), \<open>undefined\<close> as \<open>None\<close>. The few
  built-in string operations that the middleware utilities call are written out below,
  following ECMA-262.
\<close>

text \<open>\<open>s.split(sep)\<close> for a one-character separator: the result is never empty.\<close>

fun js_split :: "char \<Rightarrow> string \<Rightarrow> string list" where
  "js_split sep [] = [[]]"
| "js_split sep (c # cs) =
     (if c = sep then [] # js_split sep cs
      else (case js_split sep cs of
              [] \<Rightarrow> [[c]]
            | w # ws \<Rightarrow> (c # w) # ws))"

text \<open>
  \<open>find_first pat s\<close> is the split of \<open>s\<close> around the first occurrence of \<open>pat\<close>
  (the text before it and the text after it), as \<open>String.prototype.indexOf\<close> finds it.
\<close>

fun find_first :: "string \<Rightarrow> string \<Rightarrow> (string \<times> string) option" where
  "find_first pat [] = (if pat = [] then Some ([], []) else None)"
| "find_first pat (c # cs) =
     (if prefix pat (c # cs) then Some ([], drop (length pat) (c # cs))
      else map_option (\<lambda>(b, a). (c # b, a)) (find_first pat cs))"

text \<open>
  The abstract operation GetSubstitution for a string pattern (no capture groups):
  in the replacement text, \<open>$$\<close> stands for a dollar sign, \<open>$&\<close> for the matched
  text, \<open>$\<close> followed by a backtick (character 0x60) for the text before the match,
  \<open>$\<close> followed by an apostrophe (0x27) for the text after it; every other
  character, and a dollar sign followed by anything else, is copied.
\<close>

fun get_substitution :: "string \<Rightarrow> string \<Rightarrow> string \<Rightarrow> string \<Rightarrow> string" where
  "get_substitution m b a [] = []"
| "get_substitution m b a [c] = [c]"
| "get_substitution m b a (c # d # r) =
     (if c = CHR ''$'' then
        (if d = CHR ''$'' then CHR ''$'' # get_substitution m b a r
         else if d = CHR ''&'' then m @ get_substitution m b a r
         else if d = CHR 0x60 then b @ get_substitution m b a r
         else if d = CHR 0x27 then a @ get_substitution m b a r
         else c # get_substitution m b a (d # r))
      else c # get_substitution m b a (d # r))"

text \<open>
  \<open>s.replace(pat, repl)\<close> for a string pattern: only the first occurrence is
  replaced, and the replacement text goes through GetSubstitution.
\<close>

definition js_replace :: "string \<Rightarrow> string \<Rightarrow> string \<Rightarrow> string" where
  "js_replace s pat repl =
     (case find_first pat s of
        None \<Rightarrow> s
      | Some (b, a) \<Rightarrow> b @ get_substitution pat b a repl @ a)"

text \<open>JavaScript truthiness of an optional string: \<open>undefined\<close> and \<open>""\<close> are falsy.\<close>

definition truthy :: "string option \<Rightarrow> bool" where
  "truthy v = (case v of None \<Rightarrow> False | Some s \<Rightarrow> s \<noteq> [])"

section \<open>Domain configuration and the domain selector (utils.tsx)\<close>

text \<open>
  \<open>DomainConfig\<close> of NextIntlMiddlewareConfig: the host name, the default locale, the
  optional list of locales available on the domain and the deprecated field \<open>locale\<close>.
\<close>

record DomainConfig =
  domain :: string
  domain_defaultLocale :: string
  domain_locales :: "string list option"
  domain_locale :: "string option"

definition isLocaleSupportedOnDomain :: "string \<Rightarrow> DomainConfig \<Rightarrow> bool" where
  "isLocaleSupportedOnDomain loc d =
     (domain_defaultLocale d = loc \<or>
      (case domain_locales d of None \<Rightarrow> True | Some ls \<Rightarrow> loc \<in> set ls))"

text \<open>
  \<open>getBestMatchingDomain\<close>: five priorities, each tried only while no domain has
  been chosen yet. \<open>find\<close> is \<open>Array.prototype.find\<close>: the first element that satisfies
  the test.
\<close>

definition getBestMatchingDomain ::
  "DomainConfig option \<Rightarrow> string \<Rightarrow> DomainConfig list \<Rightarrow> DomainConfig option" where
  "getBestMatchingDomain curHostDomain loc domainConfigs =
     (let prio1 = (case curHostDomain of
                     None \<Rightarrow> None
                   | Some cur \<Rightarrow> if isLocaleSupportedOnDomain loc cur then Some cur else None);
          prio2 = (if prio1 = None
                   then find (\<lambda>cur. domain_defaultLocale cur = loc) domainConfigs
                   else prio1);
          prio3 = (if prio2 = None
                   then find (\<lambda>cur. case domain_locales cur of
                                       None \<Rightarrow> False
                                     | Some ls \<Rightarrow> loc \<in> set ls) domainConfigs
                   else prio2);
          prio4 = (if prio3 = None \<and>
                      (case curHostDomain of
                         None \<Rightarrow> True
                       | Some cur \<Rightarrow> domain_locales cur = None)
                   then curHostDomain
                   else prio3);
          prio5 = (if prio4 = None
                   then find (\<lambda>cur. domain_locales cur = None) domainConfigs
                   else prio4)
      in prio5)"

section \<open>Path helpers (utils.tsx)\<close>

text \<open>\<open>pathname.split('/')[1]\<close>: \<open>undefined\<close> when the pathname has no slash.\<close>

definition getLocaleFromPathname :: "string \<Rightarrow> string option" where
  "getLocaleFromPathname pathname =
     (case js_split CHR ''/'' pathname of
        _ # seg # _ \<Rightarrow> Some seg
      | _ \<Rightarrow> None)"

definition getKnownLocaleFromPathname :: "string \<Rightarrow> string list \<Rightarrow> string option" where
  "getKnownLocaleFromPathname pathname all_locales =
     (case getLocaleFromPathname pathname of
        None \<Rightarrow> None
      | Some pathLocaleCandidate \<Rightarrow>
          if pathLocaleCandidate \<in> set all_locales then Some pathLocaleCandidate else None)"

definition getBasePath :: "string \<Rightarrow> string \<Rightarrow> string" where
  "getBasePath pathname pathLocale =
     (let r = js_replace pathname (CHR ''/'' # pathLocale) [] in
      if r = [] then ''/'' else r)"

text \<open>\<open>search\<close> is a string or \<open>undefined\<close>; the empty string is falsy.\<close>

definition getPathWithSearch :: "string \<Rightarrow> string option \<Rightarrow> string" where
  "getPathWithSearch pathname search_opt =
     (case search_opt of
        None \<Rightarrow> pathname
      | Some q \<Rightarrow> if q \<noteq> [] then pathname @ q else pathname)"

section \<open>Pathname templates (utils.tsx)\<close>

text \<open>
  The regular expression \<open>/\[([^\]]+)\]/\<close> at the start of a string: an opening
  bracket, the longest run of characters other than a closing bracket (at least one),
  and a closing bracket. The result is the captured name and the text after the match.
  Backtracking cannot help: a shorter run is followed by a character that is not a
  closing bracket.
\<close>

definition match_placeholder :: "string \<Rightarrow> (string \<times> string) option" where
  "match_placeholder s =
     (case s of
        [] \<Rightarrow> None
      | c # r \<Rightarrow>
          if c \<noteq> CHR ''['' then None
          else (let n = takeWhile (\<lambda>x. x \<noteq> CHR '']'') r;
                    t = dropWhile (\<lambda>x. x \<noteq> CHR '']'') r
                in if n = [] \<or> t = [] then None else Some (n, tl t)))"

text \<open>
  The global flag: matches are found from left to right, each search starting where
  the previous match ended. \<open>scan_template\<close> cuts a template into its placeholders and
  the single characters between them.
\<close>

datatype segment = Literal char | Placeholder string

function scan_template :: "string \<Rightarrow> segment list" where
  "scan_template [] = []"
| "scan_template (c # r) =
     (case match_placeholder (c # r) of
        Some (n, t) \<Rightarrow> Placeholder n # scan_template t
      | None \<Rightarrow> Literal c # scan_template r)"
  by pat_completeness auto
termination
proof (relation "measure length")
  show "wf (measure length)" by simp
next
  fix c :: char and r :: string and x2 :: "string \<times> string" and n t :: string
  assume "match_placeholder (c # r) = Some x2" and "(n, t) = x2"
  then have "t = tl (dropWhile (\<lambda>x. x \<noteq> CHR '']'') r)"
    by (auto simp: match_placeholder_def Let_def split: if_splits)
  moreover have "length (dropWhile (\<lambda>x. x \<noteq> CHR '']'') r) \<le> length r"
    by (rule length_dropWhile_le)
  ultimately show "(t, c # r) \<in> measure length" by simp
next
  fix c :: char and r :: string
  show "(r, c # r) \<in> measure length" by simp
qed



text \<open>
  \<open>template.replace(/\[([^\]]+)\]/g, '([^/]+)')\<close>: every placeholder becomes the text
  of a capture group (the replacement text has no dollar sign).
\<close>

fun segment_pattern :: "segment \<Rightarrow> string" where
  "segment_pattern (Literal c) = [c]"
| "segment_pattern (Placeholder n) = ''([^/]+)''"

definition templateToRegex :: "string \<Rightarrow> string" where
  "templateToRegex template =
     ''^'' @ concat (map segment_pattern (scan_template template)) @ ''$''"

subsection \<open>The regular expressions that templates produce\<close>

text \<open>
  \<open>new RegExp(source)\<close> is modelled on the patterns that templates without operators
  of their own produce: \<open>^\<close>, then a sequence of items, then \<open>$\<close>. An item is the capture
  group \<open>([^/]+)\<close>, the dot (any character but a line terminator), or a character that
  stands for itself: every character other than \<open>\ ^ $ | ? * + ( ) [ {\<close>, and the
  opening brace when no digit follows it (it then cannot start a quantifier; without
  the flag \<open>u\<close>, ECMA-262 B.1.2 reads it, \<open>}\<close> and \<open>]\<close> as pattern characters). For every
  other source text \<open>new_RegExp\<close> is \<open>None\<close>: the model says nothing about it.
\<close>

datatype regex_item = RChar char | RAny | RGroup

definition regex_syntax_char :: "char \<Rightarrow> bool" where
  "regex_syntax_char c = (c = CHR 0x5C \<or> c \<in> set ''^$|?*+()['')"

definition decimal_digit :: "char \<Rightarrow> bool" where
  "decimal_digit c = (c \<in> set ''0123456789'')"

function regex_body :: "string \<Rightarrow> regex_item list option" where
  "regex_body s =
     (if prefix ''([^/]+)'' s then map_option (\<lambda>is. RGroup # is) (regex_body (drop 7 s))
      else (case s of
              [] \<Rightarrow> Some []
            | c # r \<Rightarrow>
                if c = CHR ''.'' then map_option (\<lambda>is. RAny # is) (regex_body r)
                else if c = CHR ''{'' \<and> (case r of [] \<Rightarrow> False | d # _ \<Rightarrow> decimal_digit d)
                  then None
                else if regex_syntax_char c then None
                else map_option (\<lambda>is. RChar c # is) (regex_body r)))"
  by pat_completeness auto
termination
proof (relation "measure length")
  show "wf (measure length)" by simp
next
  fix s :: string
  assume "prefix ''([^/]+)'' s"
  then have "length s \<ge> 7" by (auto simp: prefix_def)
  then show "(drop 7 s, s) \<in> measure length" by simp
next
  fix s :: string and c :: char and r :: string
  assume "s = c # r"
  then show "(r, s) \<in> measure length" by simp
next
  fix s :: string and c :: char and r :: string
  assume "s = c # r"
  then show "(r, s) \<in> measure length" by simp
qed

declare regex_body.simps [simp del]

definition new_RegExp :: "string \<Rightarrow> regex_item list option" where
  "new_RegExp source =
     (case source of
        [] \<Rightarrow> None
      | c # r \<Rightarrow>
          if c = CHR ''^'' \<and> r \<noteq> [] \<and> last r = CHR ''$'' then regex_body (butlast r)
          else None)"

text \<open>
  Matching, as a backtracking engine does it: a group is greedy, it first takes the
  longest run of characters other than a slash and gives characters back one at a
  time (never all of them) while the rest of the pattern fails. The dot takes one
  character that is neither a line feed nor a carriage return. The end of the item
  list is the anchor \<open>$\<close>. The result is the list of captured texts.
\<close>

definition line_terminator :: "char \<Rightarrow> bool" where
  "line_terminator c = (c = CHR 0x0A \<or> c = CHR 0x0D)"

fun greedy_group ::
  "(string \<Rightarrow> string list option) \<Rightarrow> string \<Rightarrow> nat \<Rightarrow> string list option" where
  "greedy_group k s 0 = None"
| "greedy_group k s (Suc n) =
     (case k (drop (Suc n) s) of
        Some caps \<Rightarrow> Some (take (Suc n) s # caps)
      | None \<Rightarrow> greedy_group k s n)"

primrec regex_exec :: "regex_item list \<Rightarrow> string \<Rightarrow> string list option" where
  "regex_exec [] = (\<lambda>s. if s = [] then Some [] else None)"
| "regex_exec (i # is) =
     (\<lambda>s. case i of
            RChar c \<Rightarrow>
              (case s of
                 [] \<Rightarrow> None
               | d # ds \<Rightarrow> if c = d then regex_exec is ds else None)
          | RAny \<Rightarrow>
              (case s of
                 [] \<Rightarrow> None
               | d # ds \<Rightarrow> if line_terminator d then None else regex_exec is ds)
          | RGroup \<Rightarrow>
              greedy_group (regex_exec is) s
                (length (takeWhile (\<lambda>x. x \<noteq> CHR ''/'') s)))"

datatype js_error = TypeError | RegExpNotModelled

definition matchesPathname :: "string \<Rightarrow> string \<Rightarrow> js_error + bool" where
  "matchesPathname template pathname =
     (case new_RegExp (templateToRegex template) of
        None \<Rightarrow> Inl RegExpNotModelled
      | Some regex \<Rightarrow> Inr (regex_exec regex pathname \<noteq> None))"



subsection \<open>Formatting\<close>

text \<open>
  A parameter value is a string or a number. \<open>PNumber n\<close> is the number with the
  integer value \<open>n\<close>; \<open>ToString\<close> is the conversion of JavaScript for the integers of
  magnitude below \<open>2^53\<close>, which are numbers and are printed digit for digit
  (\<open>exact_number\<close>). Every other number (a fraction, a larger number, \<open>NaN\<close>, an
  infinity) is \<open>PNumberPrinted s\<close>, given by the text \<open>s\<close> that \<open>Number::toString\<close> of
  the platform prints for it, which is not computed here.
\<close>

datatype param_value = PString string | PNumber int | PNumberPrinted string

definition exact_number :: "param_value \<Rightarrow> bool" where
  "exact_number v =
     (case v of
        PString s \<Rightarrow> True
      | PNumber n \<Rightarrow> \<bar>n\<bar> < 2 ^ 53
      | PNumberPrinted s \<Rightarrow> True)"

definition digit_char :: "nat \<Rightarrow> char" where
  "digit_char d = ''0123456789'' ! d"

fun decimal :: "nat \<Rightarrow> string" where
  "decimal n = (if n < 10 then [digit_char n] else decimal (n div 10) @ [digit_char (n mod 10)])"

definition ToString :: "param_value \<Rightarrow> string" where
  "ToString v =
     (case v of
        PString s \<Rightarrow> s
      | PNumber n \<Rightarrow> (if n < 0 then CHR ''-'' # decimal (nat (- n)) else decimal (nat n))
      | PNumberPrinted s \<Rightarrow> s)"

text \<open>
  \<open>formatPathname\<close>: the params object is the list of its entries in the order of
  \<open>Object.entries\<close>; \<open>None\<close> is a call without params.
\<close>

definition formatPathname :: "string \<Rightarrow> (string \<times> param_value) list option \<Rightarrow> string" where
  "formatPathname template params =
     (case params of
        None \<Rightarrow> template
      | Some entries \<Rightarrow>
          foldl (\<lambda>result (key, v). js_replace result (CHR ''['' # key @ '']'') (ToString v))
            template entries)"

section \<open>What the specification says of templates\<close>

text \<open>
  The names of the placeholders of a template, from left to right.
\<close>

fun segment_names :: "segment \<Rightarrow> string list" where
  "segment_names (Literal c) = []"
| "segment_names (Placeholder n) = [n]"

definition placeholder_names :: "string \<Rightarrow> string list" where
  "placeholder_names template = concat (map segment_names (scan_template template))"

text \<open>
  The specification of \<open>format\<close>: every placeholder whose name has a value is replaced
  by the value, every other placeholder stays as it is written, all at once.
\<close>

fun fill_segment :: "(string \<rightharpoonup> string) \<Rightarrow> segment \<Rightarrow> string" where
  "fill_segment values (Literal c) = [c]"
| "fill_segment values (Placeholder n) =
     (case values n of
        None \<Rightarrow> CHR ''['' # n @ '']''
      | Some v \<Rightarrow> v)"

definition fill_template :: "(string \<rightharpoonup> string) \<Rightarrow> string \<Rightarrow> string" where
  "fill_template values template = concat (map (fill_segment values) (scan_template template))"

text \<open>The entries of a params object with every value converted to a string.\<close>

definition stringified :: "(string \<times> param_value) list \<Rightarrow> (string \<times> string) list" where
  "stringified entries = map (\<lambda>(key, v). (key, ToString v)) entries"

text \<open>
  The inputs on which \<open>formatPathname\<close> meets that specification: the placeholder
  names of the template are pairwise distinct and have no opening bracket; the keys of
  the params are pairwise distinct (they are the keys of an object), not empty and
  without a closing bracket; the values are strings or exact numbers and, as strings,
  have no opening bracket and no dollar sign.
\<close>

definition plain_key :: "string \<Rightarrow> bool" where
  "plain_key k = (k \<noteq> [] \<and> CHR '']'' \<notin> set k)"

definition plain_value :: "string \<Rightarrow> bool" where
  "plain_value s = (CHR ''['' \<notin> set s \<and> CHR ''$'' \<notin> set s)"

definition plain_template :: "string \<Rightarrow> bool" where
  "plain_template template =
     (distinct (placeholder_names template) \<and>
      list_all (\<lambda>n. CHR ''['' \<notin> set n) (placeholder_names template))"

definition plain_params :: "(string \<times> param_value) list \<Rightarrow> bool" where
  "plain_params entries =
     (distinct (map fst entries) \<and>
      list_all (\<lambda>(key, v). plain_key key \<and> exact_number v \<and> plain_value (ToString v))
        entries)"








section \<open>Configuration (NextIntlMiddlewareConfig, middleware.tsx)\<close>

datatype LocalePrefix = as_needed | always | never

text \<open>
  The deprecated option \<open>routing\<close>: either a prefix mode or a list of domains, each a
  pair of a host name and its locale.
\<close>

datatype RoutingConfig =
    RoutingPrefix "LocalePrefix option"
  | RoutingDomain "(string \<times> string) list"

text \<open>
  An entry of \<open>pathnames\<close>: one pathname for all locales, or one per locale.
\<close>

datatype PathnameEntry =
    SamePathname string
  | LocalizedPathname "(string \<times> string) list"

text \<open>
  \<open>MiddlewareConfig\<close>, as the caller writes it: every optional property is an option.
  \<open>cfg_matcher\<close> is the undocumented property \<open>_matcher\<close>.
\<close>

record MiddlewareConfig =
  cfg_locales :: "string list"
  cfg_defaultLocale :: string
  cfg_localePrefix :: "LocalePrefix option"
  cfg_domains :: "DomainConfig list option"
  cfg_alternateLinks :: "bool option"
  cfg_routing :: "RoutingConfig option"
  cfg_localeDetection :: "bool option"
  cfg_pathnames :: "(string \<times> PathnameEntry) list option"
  cfg_matcher :: "string list option"

text \<open>
  \<open>MiddlewareConfigWithDefaults\<close>: the three defaulted properties are always there.
  The properties \<open>routing\<close> (always deleted or absent by then) and \<open>_matcher\<close> (read from
  the caller's configuration) are left out.
\<close>

record MiddlewareConfigWithDefaults =
  locales :: "string list"
  defaultLocale :: string
  localePrefix :: LocalePrefix
  domains :: "DomainConfig list option"
  alternateLinks :: bool
  localeDetection :: bool
  pathnames :: "(string \<times> PathnameEntry) list option"

text \<open>
  \<open>handleConfigDeprecations\<close> writes its warnings with \<open>console.error\<close>; the model
  returns them as a list, the message texts left out.
\<close>

datatype diagnostic = RoutingOptionDeprecated | DomainLocaleDeprecated

definition migrate_domain :: "DomainConfig \<Rightarrow> DomainConfig" where
  "migrate_domain cur =
     (case domain_locale cur of
        None \<Rightarrow> cur
      | Some l \<Rightarrow>
          if l = [] then cur
          else cur\<lparr>domain_defaultLocale := l, domain_locales := Some [l]\<rparr>)"

definition handleConfigDeprecations :: "MiddlewareConfig \<Rightarrow> MiddlewareConfig \<times> diagnostic list" where
  "handleConfigDeprecations config =
     (let (config1, log1) =
            (case cfg_routing config of
               None \<Rightarrow> (config, [])
             | Some routing \<Rightarrow>
                 ((case routing of
                     RoutingPrefix p \<Rightarrow> config\<lparr>cfg_routing := None, cfg_localePrefix := p\<rparr>
                   | RoutingDomain ds \<Rightarrow>
                       config\<lparr>cfg_routing := None,
                         cfg_domains :=
                           Some (map (\<lambda>(d, l). \<lparr>domain = d, domain_defaultLocale = l,
                                              domain_locales = Some [l], domain_locale = None\<rparr>) ds)\<rparr>),
                  [RoutingOptionDeprecated]))
      in (case cfg_domains config1 of
            None \<Rightarrow> (config1, log1)
          | Some ds \<Rightarrow>
              (config1\<lparr>cfg_domains := Some (map migrate_domain ds)\<rparr>,
               log1 @ concat (map (\<lambda>cur. if truthy (domain_locale cur)
                                          then [DomainLocaleDeprecated] else []) ds))))"

definition receiveConfig :: "MiddlewareConfig \<Rightarrow> MiddlewareConfigWithDefaults \<times> diagnostic list" where
  "receiveConfig config0 =
     (let (config, log) = handleConfigDeprecations config0 in
      (\<lparr>locales = cfg_locales config,
        defaultLocale = cfg_defaultLocale config,
        localePrefix = (case cfg_localePrefix config of None \<Rightarrow> as_needed | Some p \<Rightarrow> p),
        domains = cfg_domains config,
        alternateLinks = (case cfg_alternateLinks config of None \<Rightarrow> True | Some b \<Rightarrow> b),
        localeDetection = (case cfg_localeDetection config of None \<Rightarrow> True | Some b \<Rightarrow> b),
        pathnames = cfg_pathnames config\<rparr>, log))"

section \<open>Requests, responses and the collaborators of the middleware\<close>

text \<open>
  A URL object with the three properties the middleware reads. \<open>request.url\<close>, a
  string in the source, is kept as the URL it spells.
\<close>

record URL =
  host :: string
  pathname :: string
  search :: string

text \<open>
  \<open>NextRequest\<close>: headers and cookies are maps from a name to a value.
\<close>

record NextRequest =
  nextUrl :: URL
  url :: URL
  headers :: "string \<rightharpoonup> string"
  cookies :: "string \<rightharpoonup> string"

datatype Decision = Rewrite URL | Redirect URL | Next

record SetCookie =
  cookie_name :: string
  cookie_value :: string
  cookie_sameSite :: string

record AlternateLink =
  href :: string
  hreflang :: string

text \<open>
  \<open>NextResponse\<close>: the decision; the request headers handed on in the response init
  (\<open>None\<close> when the response is built without an init), the cookies set on the
  response and the value of its \<open>Link\<close> header.
\<close>

record NextResponse =
  decision :: Decision
  forwarded_headers :: "(string \<rightharpoonup> string) option"
  response_cookies :: "SetCookie list"
  link_header :: "AlternateLink list option"

text \<open>
  What middleware.tsx imports and the sources do not contain, and what it calls of the
  platform, are parameters: the two constants of \<open>shared/constants\<close>, \<open>resolveLocale\<close>,
  the two functions of \<open>LocalizedPathnames\<close>, the URL of an alternate link (for a
  locale, or for the x-default entry), the constructor \<open>new URL(url, base)\<close>, the
  setters of \<open>pathname\<close> and \<open>host\<close> of a URL object, and \<open>pathname.match(pattern)\<close>
  of the matcher.
\<close>

record Env =
  COOKIE_LOCALE_NAME :: string
  HEADER_LOCALE_NAME :: string
  resolveLocale ::
    "MiddlewareConfigWithDefaults \<Rightarrow> (string \<rightharpoonup> string) \<Rightarrow> (string \<rightharpoonup> string) \<Rightarrow> string
       \<Rightarrow> DomainConfig option \<times> string"
  getLocalizedRedirectPathname ::
    "NextRequest \<Rightarrow> string \<Rightarrow> MiddlewareConfigWithDefaults \<Rightarrow> string option"
  getLocalizedRewritePathname ::
    "NextRequest \<Rightarrow> MiddlewareConfigWithDefaults \<Rightarrow> string option"
  alternate_url :: "MiddlewareConfigWithDefaults \<Rightarrow> NextRequest \<Rightarrow> string option \<Rightarrow> string"
  new_URL :: "string \<Rightarrow> URL \<Rightarrow> URL"
  set_pathname :: "URL \<Rightarrow> string \<Rightarrow> URL"
  set_host :: "URL \<Rightarrow> string \<Rightarrow> URL"
  string_match :: "string \<Rightarrow> string \<Rightarrow> bool"

text \<open>
  Modelled from the spec: \<open>getAlternateLinksHeaderValue\<close> (its file is not among the
  sources). The spec has the header enumerate per-locale URLs, "one entry per
  supported locale, plus one x-default entry", each URL built by the localization
  rules for that locale; the building of a URL is the parameter \<open>alternate_url\<close>.
\<close>

definition getAlternateLinksHeaderValue ::
  "Env \<Rightarrow> MiddlewareConfigWithDefaults \<Rightarrow> NextRequest \<Rightarrow> AlternateLink list" where
  "getAlternateLinksHeaderValue env config request =
     map (\<lambda>l. \<lparr>href = alternate_url env config request (Some l), hreflang = l\<rparr>) (locales config)
     @ [\<lparr>href = alternate_url env config request None, hreflang = ''x-default''\<rparr>]"

section \<open>The middleware (middleware.tsx)\<close>

text \<open>
  The local constants of \<open>middleware\<close> that its inner functions close over.
\<close>

record Locals =
  cur_domain :: "DomainConfig option"
  cur_locale :: string
  hasOutdatedCookie :: bool
  hasMatchedDefaultLocale :: bool
  domainConfigs :: "DomainConfig list"
  hasUnknownHost :: bool

definition middleware_locals :: "Env \<Rightarrow> MiddlewareConfigWithDefaults \<Rightarrow> NextRequest \<Rightarrow> Locals" where
  "middleware_locals env config request =
     (let (dom, loc) = resolveLocale env config (headers request) (cookies request)
                         (pathname (nextUrl request))
      in \<lparr>cur_domain = dom,
          cur_locale = loc,
          hasOutdatedCookie = (cookies request (COOKIE_LOCALE_NAME env) \<noteq> Some loc),
          hasMatchedDefaultLocale =
            (case dom of
               Some d \<Rightarrow> domain_defaultLocale d = loc
             | None \<Rightarrow> loc = defaultLocale config),
          domainConfigs =
            (case domains config of
               None \<Rightarrow> []
             | Some ds \<Rightarrow> filter (isLocaleSupportedOnDomain loc) ds),
          hasUnknownHost = (domains config \<noteq> None \<and> dom = None)\<rparr>)"

definition getResponseInit :: "Env \<Rightarrow> NextRequest \<Rightarrow> Locals \<Rightarrow> (string \<rightharpoonup> string)" where
  "getResponseInit env request lc =
     (if hasOutdatedCookie lc
      then (headers request)(HEADER_LOCALE_NAME env \<mapsto> cur_locale lc)
      else headers request)"

definition rewrite :: "Env \<Rightarrow> NextRequest \<Rightarrow> Locals \<Rightarrow> string \<Rightarrow> NextResponse" where
  "rewrite env request lc u =
     \<lparr>decision = Rewrite (new_URL env u (url request)),
      forwarded_headers = Some (getResponseInit env request lc),
      response_cookies = [],
      link_header = None\<rparr>"

definition next_response :: "Env \<Rightarrow> NextRequest \<Rightarrow> Locals \<Rightarrow> NextResponse" where
  "next_response env request lc =
     \<lparr>decision = Next,
      forwarded_headers = Some (getResponseInit env request lc),
      response_cookies = [],
      link_header = None\<rparr>"

text \<open>
  \<open>redirect(url, host?)\<close>. \<open>redirect_target\<close> is the URL object when the function
  returns: the pathname and the host may have been set.
\<close>

definition redirect_target ::
  "Env \<Rightarrow> MiddlewareConfigWithDefaults \<Rightarrow> NextRequest \<Rightarrow> Locals \<Rightarrow> string \<Rightarrow> string option \<Rightarrow> URL" where
  "redirect_target env config request lc u host_arg =
     (let urlObj = new_URL env u (url request);
          (urlObj1, host1) =
            (if domainConfigs lc \<noteq> [] \<and> \<not> truthy host_arg then
               (case getBestMatchingDomain (cur_domain lc) (cur_locale lc) (domainConfigs lc) of
                  None \<Rightarrow> (urlObj, host_arg)
                | Some bestMatchingDomain \<Rightarrow>
                    ((if domain_defaultLocale bestMatchingDomain = cur_locale lc \<and>
                         localePrefix config = as_needed
                      then set_pathname env urlObj
                             (js_replace (pathname urlObj) (CHR ''/'' # cur_locale lc) [])
                      else urlObj),
                     Some (domain bestMatchingDomain)))
             else (urlObj, host_arg))
      in (case host1 of
            None \<Rightarrow> urlObj1
          | Some h \<Rightarrow> if h \<noteq> [] then set_host env urlObj1 h else urlObj1))"

definition redirect ::
  "Env \<Rightarrow> MiddlewareConfigWithDefaults \<Rightarrow> NextRequest \<Rightarrow> Locals \<Rightarrow> string \<Rightarrow> string option
     \<Rightarrow> NextResponse" where
  "redirect env config request lc u host_arg =
     \<lparr>decision = Redirect (redirect_target env config request lc u host_arg),
      forwarded_headers = None,
      response_cookies = [],
      link_header = None\<rparr>"

text \<open>The branch \<open>if (isRoot)\<close>.\<close>

definition root_response ::
  "Env \<Rightarrow> MiddlewareConfigWithDefaults \<Rightarrow> NextRequest \<Rightarrow> Locals \<Rightarrow> NextResponse" where
  "root_response env config request lc =
     (let pathWithSearch =
            getPathWithSearch (CHR ''/'' # cur_locale lc) (Some (search (nextUrl request)))
      in if localePrefix config = never \<or>
            (hasMatchedDefaultLocale lc \<and> localePrefix config = as_needed)
         then rewrite env request lc pathWithSearch
         else redirect env config request lc pathWithSearch None)"

text \<open>
  The block \<open>if (configWithDefaults.pathnames)\<close>: \<open>None\<close> when it leaves \<open>response\<close>
  unassigned.
\<close>

definition localized_response ::
  "Env \<Rightarrow> MiddlewareConfigWithDefaults \<Rightarrow> NextRequest \<Rightarrow> Locals \<Rightarrow> NextResponse option" where
  "localized_response env config request lc =
     (case pathnames config of
        None \<Rightarrow> None
      | Some _ \<Rightarrow>
          (let localizedRedirect = getLocalizedRedirectPathname env request (cur_locale lc) config in
           if truthy localizedRedirect
           then (case localizedRedirect of
                   None \<Rightarrow> None
                 | Some u \<Rightarrow> Some (redirect env config request lc u None))
           else (let localizedRewrite = getLocalizedRewritePathname env request config in
                 if truthy localizedRewrite
                 then (case localizedRewrite of
                         None \<Rightarrow> None
                       | Some u \<Rightarrow> Some (rewrite env request lc u))
                 else None)))"

text \<open>The block \<open>if (!response)\<close>: the generic prefix logic.\<close>

definition prefix_response ::
  "Env \<Rightarrow> MiddlewareConfigWithDefaults \<Rightarrow> NextRequest \<Rightarrow> Locals \<Rightarrow> NextResponse" where
  "prefix_response env config request lc =
     (let pathLocale = getKnownLocaleFromPathname (pathname (nextUrl request)) (locales config);
          pathWithSearch =
            getPathWithSearch (pathname (nextUrl request)) (Some (search (nextUrl request)))
      in (case pathLocale of
            Some pl \<Rightarrow>
              (let basePath = getBasePath pathWithSearch pl in
               if localePrefix config = never then redirect env config request lc basePath None
               else if pl = cur_locale lc then
                 (if hasMatchedDefaultLocale lc \<and> localePrefix config = as_needed
                  then redirect env config request lc basePath None
                  else (case domains config of
                          Some _ \<Rightarrow>
                            (let pathDomain =
                                   getBestMatchingDomain (cur_domain lc) pl (domainConfigs lc)
                             in if map_option domain (cur_domain lc) \<noteq> map_option domain pathDomain
                                   \<and> \<not> hasUnknownHost lc
                                then redirect env config request lc basePath
                                       (map_option domain pathDomain)
                                else next_response env request lc)
                        | None \<Rightarrow> next_response env request lc))
               else redirect env config request lc (CHR ''/'' # cur_locale lc @ basePath) None)
          | None \<Rightarrow>
              if localePrefix config = never \<or>
                 (hasMatchedDefaultLocale lc \<and>
                  (localePrefix config = as_needed \<or> domains config \<noteq> None))
              then rewrite env request lc (CHR ''/'' # cur_locale lc @ pathWithSearch)
              else redirect env config request lc (CHR ''/'' # cur_locale lc @ pathWithSearch) None))"

text \<open>The two statements after the decision: the cookie and the \<open>Link\<close> header.\<close>

definition set_locale_cookie :: "Env \<Rightarrow> Locals \<Rightarrow> NextResponse \<Rightarrow> NextResponse" where
  "set_locale_cookie env lc response =
     (if hasOutdatedCookie lc
      then response\<lparr>response_cookies :=
             filter (\<lambda>c. cookie_name c \<noteq> COOKIE_LOCALE_NAME env) (response_cookies response)
             @ [\<lparr>cookie_name = COOKIE_LOCALE_NAME env, cookie_value = cur_locale lc,
                 cookie_sameSite = ''strict''\<rparr>]\<rparr>
      else response)"

definition set_link_header ::
  "Env \<Rightarrow> MiddlewareConfigWithDefaults \<Rightarrow> NextRequest \<Rightarrow> NextResponse \<Rightarrow> NextResponse" where
  "set_link_header env config request response =
     (if localePrefix config \<noteq> never \<and> alternateLinks config \<and> length (locales config) > 1
      then response\<lparr>link_header := Some (getAlternateLinksHeaderValue env config request)\<rparr>
      else response)"

text \<open>\<open>matcher.some((pattern) => pathname.match(pattern))\<close>, true without a matcher.\<close>

definition request_matches :: "Env \<Rightarrow> string list option \<Rightarrow> NextRequest \<Rightarrow> bool" where
  "request_matches env matcher request =
     (case matcher of
        None \<Rightarrow> True
      | Some patterns \<Rightarrow> list_ex (string_match env (pathname (nextUrl request))) patterns)"

text \<open>The value of \<open>response\<close> when the branches on \<open>isRoot\<close> are done.\<close>

definition routing_response ::
  "Env \<Rightarrow> MiddlewareConfigWithDefaults \<Rightarrow> NextRequest \<Rightarrow> Locals \<Rightarrow> NextResponse" where
  "routing_response env config request lc =
     (let isRoot = (pathname (nextUrl request) = ''/'') in
      if isRoot then root_response env config request lc
      else (case localized_response env config request lc of
              Some r \<Rightarrow> r
            | None \<Rightarrow> prefix_response env config request lc))"

text \<open>
  The function that \<open>createMiddleware\<close> returns. A request that the matcher rejects
  gets \<open>NextResponse.next()\<close>, built without an init.
\<close>

definition middleware ::
  "Env \<Rightarrow> MiddlewareConfigWithDefaults \<Rightarrow> string list option \<Rightarrow> NextRequest \<Rightarrow> NextResponse" where
  "middleware env config matcher request =
     (if \<not> request_matches env matcher request
      then \<lparr>decision = Next, forwarded_headers = None, response_cookies = [], link_header = None\<rparr>
      else
        (let lc = middleware_locals env config request;
             response = routing_response env config request lc
         in set_link_header env config request (set_locale_cookie env lc response)))"

text \<open>
  \<open>createMiddleware\<close>. Neither it nor \<open>receiveConfig\<close> has a \<open>throw\<close> statement or
  inspects the configuration for consistency; the result type keeps a side for a
  failing setup so that the two outcomes can be told apart.
\<close>

datatype setup_error = ConfigurationError

definition createMiddleware ::
  "Env \<Rightarrow> MiddlewareConfig \<Rightarrow> setup_error + (NextRequest \<Rightarrow> NextResponse)" where
  "createMiddleware env config =
     (let configWithDefaults = fst (receiveConfig config);
          matcher = cfg_matcher config
      in Inr (middleware env configWithDefaults matcher))"

text \<open>The locale that \<open>resolveLocale\<close> returns for a request.\<close>

definition resolved_locale :: "Env \<Rightarrow> MiddlewareConfigWithDefaults \<Rightarrow> NextRequest \<Rightarrow> string" where
  "resolved_locale env config request =
     snd (resolveLocale env config (headers request) (cookies request) (pathname (nextUrl request)))"

text \<open>
  What the three makers of a response (\<open>rewrite\<close>, \<open>next\<close>, \<open>redirect\<close>) have in
  common: no cookie and no \<open>Link\<close> header yet, and the request headers of the init
  unless the response is a redirect.
\<close>

definition fresh_response :: "Env \<Rightarrow> NextRequest \<Rightarrow> Locals \<Rightarrow> NextResponse \<Rightarrow> bool" where
  "fresh_response env request lc r =
     (response_cookies r = [] \<and> link_header r = None \<and>
      (case decision r of
         Redirect u \<Rightarrow> forwarded_headers r = None
       | _ \<Rightarrow> forwarded_headers r = Some (getResponseInit env request lc)))"

section \<open>Example data\<close>

text \<open>
  The two domains of the example of the specification, and a variant of the first
  that is restricted to English.
\<close>

definition example_a_com :: DomainConfig where
  "example_a_com =
     \<lparr>domain = ''a.com'', domain_defaultLocale = ''en'', domain_locales = None,
      domain_locale = None\<rparr>"

definition example_b_com :: DomainConfig where
  "example_b_com =
     \<lparr>domain = ''b.com'', domain_defaultLocale = ''de'', domain_locales = Some [''de''],
      domain_locale = None\<rparr>"

definition example_a_com_en :: DomainConfig where
  "example_a_com_en = example_a_com\<lparr>domain_locales := Some [''en'']\<rparr>"

text \<open>
  A platform for evaluating the middleware on concrete requests. \<open>simple_new_URL\<close>
  resolves a reference that is a path starting with one slash, optionally followed by
  a query, or only a query, or empty; the setter of the pathname puts a slash in front
  of a text that does not start with one, the setter of the host stores the text; a
  matcher pattern is searched as plain text. The locale is resolved from nothing but
  the cookie, the localized pathnames never apply.
\<close>

definition simple_new_URL :: "string \<Rightarrow> URL \<Rightarrow> URL" where
  "simple_new_URL ref base =
     (let p = takeWhile (\<lambda>c. c \<noteq> CHR ''?'') ref;
          q = dropWhile (\<lambda>c. c \<noteq> CHR ''?'') ref
      in \<lparr>host = host base,
          pathname = (if p = [] then pathname base else p),
          search = (if p = [] \<and> q = [] then search base else q)\<rparr>)"

definition example_env :: Env where
  "example_env =
     \<lparr>COOKIE_LOCALE_NAME = ''NEXT_LOCALE'',
      HEADER_LOCALE_NAME = ''X-NEXT-INTL-LOCALE'',
      resolveLocale = (\<lambda>config hs cs p.
         (None, case cs ''NEXT_LOCALE'' of None \<Rightarrow> defaultLocale config | Some l \<Rightarrow> l)),
      getLocalizedRedirectPathname = (\<lambda>request l config. None),
      getLocalizedRewritePathname = (\<lambda>request config. None),
      alternate_url = (\<lambda>config request l.
         CHR ''/'' # (case l of None \<Rightarrow> defaultLocale config | Some x \<Rightarrow> x)),
      new_URL = simple_new_URL,
      set_pathname = (\<lambda>u p. u\<lparr>pathname :=
         (case p of [] \<Rightarrow> ''/'' | c # _ \<Rightarrow> if c = CHR ''/'' then p else CHR ''/'' # p)\<rparr>),
      set_host = (\<lambda>u h. u\<lparr>host := h\<rparr>),
      string_match = (\<lambda>s pattern. find_first pattern s \<noteq> None)\<rparr>"

text \<open>The same platform on the host a.com, where the locale resolves to English.\<close>

definition example_env_a_com :: Env where
  "example_env_a_com =
     example_env\<lparr>resolveLocale := (\<lambda>config hs cs p. (Some example_a_com, ''en''))\<rparr>"

text \<open>A request for a host, a pathname and a query, with or without the locale cookie.\<close>

definition example_request :: "string \<Rightarrow> string \<Rightarrow> string \<Rightarrow> string option \<Rightarrow> NextRequest" where
  "example_request h p q cookie =
     \<lparr>nextUrl = \<lparr>host = h, pathname = p, search = q\<rparr>,
      url = \<lparr>host = h, pathname = p, search = q\<rparr>,
      headers = Map.empty,
      cookies = (case cookie of None \<Rightarrow> Map.empty | Some l \<Rightarrow> [''NEXT_LOCALE'' \<mapsto> l])\<rparr>"

text \<open>English and German, English by default, every option left to its default.\<close>

definition example_config :: MiddlewareConfig where
  "example_config =
     \<lparr>cfg_locales = [''en'', ''de''], cfg_defaultLocale = ''en'', cfg_localePrefix = None,
      cfg_domains = None, cfg_alternateLinks = None, cfg_routing = None,
      cfg_localeDetection = None, cfg_pathnames = None, cfg_matcher = None\<rparr>"

text \<open>The same platform where the locale always resolves to German.\<close>

definition example_env_de :: Env where
  "example_env_de = example_env\<lparr>resolveLocale := (\<lambda>config hs cs p. (None, ''de''))\<rparr>"

text \<open>A configuration whose default locale is not one of its locales.\<close>

definition example_bad_config :: MiddlewareConfig where
  "example_bad_config = example_config\<lparr>cfg_locales := [''en'', ''de''], cfg_defaultLocale := ''fr''\<rparr>"

text \<open>
  A configuration that still uses the deprecated \<open>routing\<close> option, with a default
  locale that is not one of its locales.
\<close>

definition example_legacy_config :: MiddlewareConfig where
  "example_legacy_config =
     example_config\<lparr>cfg_defaultLocale := ''fr'',
       cfg_routing := Some (RoutingDomain [(''a.com'', ''en''), (''b.com'', ''de'')])\<rparr>"
section \<open>Properties of the templates\<close>

subsection \<open>Scanning\<close>

lemma match_placeholder_Some:
  assumes "match_placeholder s = Some (n, t)"
  shows "s = CHR ''['' # n @ CHR '']'' # t" and "n \<noteq> []" and "CHR '']'' \<notin> set n"
proof -
  let ?P = "\<lambda>x. x \<noteq> CHR '']''"
  from assms obtain r where s: "s = CHR ''['' # r"
    and n: "n = takeWhile ?P r" and ne: "n \<noteq> []"
    and d: "dropWhile ?P r \<noteq> []" and t: "t = tl (dropWhile ?P r)"
    by (auto simp: match_placeholder_def Let_def split: list.splits if_splits)
  from d have "hd (dropWhile ?P r) = CHR '']''"
    using hd_dropWhile [of ?P r] by simp
  with d t have "dropWhile ?P r = CHR '']'' # t"
    by (cases "dropWhile ?P r") auto
  then have "r = n @ CHR '']'' # t"
    using takeWhile_dropWhile_id [of ?P r] n by simp
  with s show "s = CHR ''['' # n @ CHR '']'' # t" by simp
  show "n \<noteq> []" by (rule ne)
  show "CHR '']'' \<notin> set n" using n by (auto dest: set_takeWhileD)
qed

lemma match_placeholder_other: "c \<noteq> CHR ''['' \<Longrightarrow> match_placeholder (c # r) = None"
  by (simp add: match_placeholder_def)

lemma match_placeholder_None_bracket:
  assumes "match_placeholder (CHR ''['' # r) = None"
  shows "(\<exists>r'. r = CHR '']'' # r') \<or> CHR '']'' \<notin> set r"
proof -
  let ?P = "\<lambda>x. x \<noteq> CHR '']''"
  from assms have "takeWhile ?P r = [] \<or> dropWhile ?P r = []"
    by (auto simp: match_placeholder_def Let_def split: if_splits)
  then show ?thesis
  proof
    assume "takeWhile ?P r = []"
    then have "r = [] \<or> hd r = CHR '']''" by (simp add: takeWhile_eq_Nil_iff)
    then show ?thesis by (cases r) auto
  next
    assume "dropWhile ?P r = []"
    then show ?thesis by auto
  qed
qed

lemma match_placeholder_no_close:
  "CHR '']'' \<notin> set s \<Longrightarrow> match_placeholder s = None"
  by (cases s) (auto simp: match_placeholder_def Let_def)

lemma scan_template_Some:
  "match_placeholder (c # r) = Some (n, t) \<Longrightarrow>
   scan_template (c # r) = Placeholder n # scan_template t"
  by simp


lemma scan_template_no_close:
  "CHR '']'' \<notin> set s \<Longrightarrow> scan_template s = map Literal s"
  by (induction s) (simp_all add: match_placeholder_no_close)

lemma fill_template_Nil [simp]: "fill_template vs [] = []"
  by (simp add: fill_template_def)

lemma fill_template_Some:
  "match_placeholder (c # r) = Some (n, t) \<Longrightarrow>
   fill_template vs (c # r) = fill_segment vs (Placeholder n) @ fill_template vs t"
  by (simp add: fill_template_def)

lemma fill_template_None:
  "match_placeholder (c # r) = None \<Longrightarrow> fill_template vs (c # r) = c # fill_template vs r"
  by (simp add: fill_template_def)

lemma fill_template_no_close:
  "CHR '']'' \<notin> set s \<Longrightarrow> fill_template vs s = s"
  by (simp add: fill_template_def scan_template_no_close comp_def)

lemma placeholder_names_Nil [simp]: "placeholder_names [] = []"
  by (simp add: placeholder_names_def)

lemma placeholder_names_Some:
  "match_placeholder (c # r) = Some (n, t) \<Longrightarrow>
   placeholder_names (c # r) = n # placeholder_names t"
  by (simp add: placeholder_names_def)

lemma placeholder_names_None:
  "match_placeholder (c # r) = None \<Longrightarrow> placeholder_names (c # r) = placeholder_names r"
  by (simp add: placeholder_names_def)

text \<open>Filling in nothing gives the template back.\<close>

lemma fill_template_empty: "fill_template Map.empty s = s"
proof (induction s rule: scan_template.induct)
  case 1
  show ?case by simp
next
  case (2 c r)
  show ?case
  proof (cases "match_placeholder (c # r)")
    case None
    with 2 show ?thesis by (simp add: fill_template_None)
  next
    case (Some x)
    obtain n t where x: "x = (n, t)" by (cases x)
    from Some x have m: "match_placeholder (c # r) = Some (n, t)" by simp
    from 2(2) [OF Some x [symmetric]] have "fill_template Map.empty t = t" .
    with m match_placeholder_Some(1) [OF m] show ?thesis
      by (simp add: fill_template_Some)
  qed
qed

lemma fill_template_cong:
  "\<forall>n \<in> set (placeholder_names s). vs' n = vs n \<Longrightarrow> fill_template vs' s = fill_template vs s"
proof (induction s rule: scan_template.induct)
  case 1
  show ?case by simp
next
  case (2 c r)
  show ?case
  proof (cases "match_placeholder (c # r)")
    case None
    with 2 show ?thesis by (simp add: fill_template_None placeholder_names_None)
  next
    case (Some x)
    obtain n t where x: "x = (n, t)" by (cases x)
    from Some x have m: "match_placeholder (c # r) = Some (n, t)" by simp
    from 2(3) m have "vs' n = vs n" "\<forall>n \<in> set (placeholder_names t). vs' n = vs n"
      by (simp_all add: placeholder_names_Some)
    with 2(2) [OF Some x [symmetric]] m show ?thesis
      by (simp add: fill_template_Some)
  qed
qed

subsection \<open>The first occurrence of a pattern\<close>

lemma find_first_prefix: "pat \<noteq> [] \<Longrightarrow> find_first pat (pat @ s) = Some ([], s)"
  by (cases pat) simp_all

lemma find_first_skip:
  assumes "c0 \<notin> set u"
  shows "find_first (c0 # p) (u @ s) = map_option (\<lambda>(b, a). (u @ b, a)) (find_first (c0 # p) s)"
  using assms
proof (induction u)
  case Nil
  show ?case by (simp add: option.map_ident case_prod_unfold)
next
  case (Cons x u)
  then show ?case
    by (simp add: option.map_comp comp_def case_prod_unfold)
qed

lemma get_substitution_plain: "CHR ''$'' \<notin> set v \<Longrightarrow> get_substitution m b a v = v"
  by (induction m b a v rule: get_substitution.induct) auto

lemma name_before_close:
  assumes "prefix (k @ [CHR '']'']) (n @ CHR '']'' # t)"
    and "CHR '']'' \<notin> set k" and "CHR '']'' \<notin> set n"
  shows "k = n"
proof -
  let ?P = "\<lambda>x. x \<noteq> CHR '']''"
  from assms(1) obtain z where z: "n @ CHR '']'' # t = k @ CHR '']'' # z"
    by (auto simp: prefix_def)
  have "takeWhile ?P (n @ CHR '']'' # t) = n" using assms(3) by (auto simp: takeWhile_tail)
  moreover have "takeWhile ?P (k @ CHR '']'' # z) = k" using assms(2) by (auto simp: takeWhile_tail)
  ultimately show ?thesis using z by simp
qed

text \<open>
  One step of \<open>formatPathname\<close> on a template that is partly filled in: the first
  occurrence of the text \<open>[k]\<close> is the placeholder \<open>k\<close>.
\<close>

lemma replace_in_filled:
  assumes k: "k \<noteq> []" "CHR '']'' \<notin> set k"
    and fresh: "vs k = None"
    and ran: "\<forall>n w. vs n = Some w \<longrightarrow> CHR ''['' \<notin> set w"
    and vs': "vs' k = Some v" "\<forall>n. n \<noteq> k \<longrightarrow> vs' n = vs n"
  shows "\<forall>n \<in> set (placeholder_names s). CHR ''['' \<notin> set n \<Longrightarrow>
         distinct (placeholder_names s) \<Longrightarrow>
         (case find_first (CHR ''['' # k @ '']'') (fill_template vs s) of
            None \<Rightarrow> fill_template vs s
          | Some (b, a) \<Rightarrow> b @ v @ a) = fill_template vs' s"
proof (induction s rule: scan_template.induct)
  case 1
  show ?case by simp
next
  case (2 c r)
  let ?pat = "CHR ''['' # k @ '']''"
  show ?case
  proof (cases "match_placeholder (c # r)")
    case None
    have np: "\<not> prefix ?pat (c # fill_template vs r)"
    proof (cases "c = CHR ''[''")
      case False
      then show ?thesis by simp
    next
      case True
      with None have "(\<exists>r'. r = CHR '']'' # r') \<or> CHR '']'' \<notin> set r"
        by (auto dest: match_placeholder_None_bracket)
      then show ?thesis
      proof
        assume "\<exists>r'. r = CHR '']'' # r'"
        then obtain r' where r: "r = CHR '']'' # r'" ..
        have "fill_template vs r = CHR '']'' # fill_template vs r'"
          unfolding r by (rule fill_template_None) (simp add: match_placeholder_other)
        with k show ?thesis by (cases k) auto
      next
        assume nc: "CHR '']'' \<notin> set r"
        then have "fill_template vs r = r" by (rule fill_template_no_close)
        moreover have "\<not> prefix (k @ '']'') r"
        proof
          assume "prefix (k @ '']'') r"
          then have "set (k @ '']'') \<subseteq> set r" by (rule set_mono_prefix)
          with nc show False by simp
        qed
        ultimately show ?thesis by simp
      qed
    qed
    from 2(3,4) None have h: "\<forall>n \<in> set (placeholder_names r). CHR ''['' \<notin> set n"
      "distinct (placeholder_names r)"
      by (simp_all add: placeholder_names_None)
    note IH = 2(1) [OF None h]
    have ff: "find_first ?pat (c # fill_template vs r) =
                map_option (\<lambda>(b, a). (c # b, a)) (find_first ?pat (fill_template vs r))"
      using np by auto
    have unf: "fill_template vs (c # r) = c # fill_template vs r"
      "fill_template vs' (c # r) = c # fill_template vs' r"
      using None by (simp_all only: fill_template_None)
    show ?thesis
    proof (cases "find_first ?pat (fill_template vs r)")
      case None
      with IH show ?thesis unfolding unf ff by simp
    next
      case (Some y)
      with IH show ?thesis unfolding unf ff by (cases y) simp
    qed
  next
    case (Some x)
    obtain n t where x: "x = (n, t)" by (cases x)
    from Some x have m: "match_placeholder (c # r) = Some (n, t)" by simp
    note shape = match_placeholder_Some [OF m]
    from 2(3,4) m have h: "\<forall>n \<in> set (placeholder_names t). CHR ''['' \<notin> set n"
      "distinct (placeholder_names t)" and n: "CHR ''['' \<notin> set n" "n \<notin> set (placeholder_names t)"
      by (simp_all add: placeholder_names_Some)
    note IH = 2(2) [OF Some x [symmetric] h]
    let ?F = "fill_template vs t"
    have unf: "fill_template vs (c # r) = fill_segment vs (Placeholder n) @ ?F"
      "fill_template vs' (c # r) = fill_segment vs' (Placeholder n) @ fill_template vs' t"
      using m by (simp_all only: fill_template_Some)
    show ?thesis
    proof (cases "n = k")
      case True
      have "fill_template vs' t = ?F"
        using n(2) vs'(2) True by (intro fill_template_cong) auto
      then show ?thesis
        unfolding unf using True fresh vs'(1) find_first_prefix [of ?pat ?F] by simp
    next
      case False
      with vs'(2) have same: "fill_segment vs' (Placeholder n) = fill_segment vs (Placeholder n)"
        by simp
      have skip: "find_first ?pat (fill_segment vs (Placeholder n) @ ?F) =
                    map_option (\<lambda>(b, a). (fill_segment vs (Placeholder n) @ b, a))
                      (find_first ?pat ?F)"
      proof (cases "vs n")
        case (Some w)
        with ran have w: "CHR ''['' \<notin> set w" by blast
        from Some show ?thesis by (simp add: find_first_skip [OF w])
      next
        case None
        have np: "\<not> prefix ?pat (CHR ''['' # n @ CHR '']'' # ?F)"
          using name_before_close [of k n ?F] k(2) shape(3) False by auto
        have inner: "CHR ''['' \<notin> set (n @ '']'')" using n by simp
        have "find_first ?pat (CHR ''['' # (n @ '']'') @ ?F) =
                map_option (\<lambda>(b, a). (CHR ''['' # (n @ '']'') @ b, a)) (find_first ?pat ?F)"
          using np find_first_skip [OF inner, of "k @ '']''" ?F]
          by (simp add: option.map_comp comp_def case_prod_unfold)
        with None show ?thesis by simp
      qed
      show ?thesis
      proof (cases "find_first ?pat ?F")
        case None
        with IH show ?thesis unfolding unf skip same by simp
      next
        case (Some y)
        with IH show ?thesis unfolding unf skip same by (cases y) simp
      qed
    qed
  qed
qed

subsection \<open>Formatting a pathname\<close>

lemma js_replace_in_filled:
  assumes "plain_key k" and "plain_value v" and "vs k = None"
    and "\<forall>n w. vs n = Some w \<longrightarrow> CHR ''['' \<notin> set w"
    and "plain_template s"
  shows "js_replace (fill_template vs s) (CHR ''['' # k @ '']'') v = fill_template (vs(k \<mapsto> v)) s"
proof -
  have names: "\<forall>n \<in> set (placeholder_names s). CHR ''['' \<notin> set n" "distinct (placeholder_names s)"
    using assms(5) by (simp_all add: plain_template_def list_all_iff)
  have k: "k \<noteq> []" "CHR '']'' \<notin> set k" using assms(1) by (simp_all add: plain_key_def)
  have upd: "(vs(k \<mapsto> v)) k = Some v" "\<forall>n. n \<noteq> k \<longrightarrow> (vs(k \<mapsto> v)) n = vs n" by simp_all
  have sub: "get_substitution m b a v = v" for m b a
    using assms(2) by (simp add: plain_value_def get_substitution_plain)
  from replace_in_filled [where vs' = "vs(k \<mapsto> v)", OF k assms(3,4) upd names]
  show ?thesis
    by (simp add: js_replace_def sub split: option.splits prod.splits)
qed

lemma formatPathname_fold:
  assumes t: "plain_template t"
  shows "plain_params ps \<Longrightarrow> \<forall>k \<in> set (map fst ps). vs k = None \<Longrightarrow>
         \<forall>n w. vs n = Some w \<longrightarrow> CHR ''['' \<notin> set w \<Longrightarrow>
         foldl (\<lambda>result (key, v). js_replace result (CHR ''['' # key @ '']'') (ToString v))
           (fill_template vs t) ps
         = fill_template (vs ++ map_of (stringified ps)) t"
proof (induction ps arbitrary: vs)
  case Nil
  show ?case by (simp add: stringified_def)
next
  case (Cons e ps)
  obtain k v where e: "e = (k, v)" by (cases e)
  let ?sv = "ToString v"
  let ?vs = "vs(k \<mapsto> ?sv)"
  from Cons.prems(1) e have pk: "plain_key k" and pv: "plain_value ?sv"
    and rest: "plain_params ps" and kn: "k \<notin> set (map fst ps)"
    by (auto simp: plain_params_def)
  from Cons.prems(2) e have fresh: "vs k = None" by simp
  have step: "js_replace (fill_template vs t) (CHR ''['' # k @ '']'') ?sv = fill_template ?vs t"
    by (rule js_replace_in_filled [OF pk pv fresh Cons.prems(3) t])
  have f': "\<forall>k' \<in> set (map fst ps). ?vs k' = None"
    using Cons.prems(2) kn by auto
  have r': "\<forall>n w. ?vs n = Some w \<longrightarrow> CHR ''['' \<notin> set w"
    using Cons.prems(3) pv by (auto simp: plain_value_def)
  have "k \<notin> dom (map_of (stringified ps))"
    using kn by (simp add: stringified_def dom_map_of_conv_image_fst image_image case_prod_unfold)
  then have maps: "?vs ++ map_of (stringified ps) = vs ++ map_of (stringified (e # ps))"
    by (simp add: e stringified_def map_add_upd_left)
  have "foldl (\<lambda>result (key, v). js_replace result (CHR ''['' # key @ '']'') (ToString v))
          (fill_template ?vs t) ps
        = fill_template (?vs ++ map_of (stringified ps)) t"
    by (rule Cons.IH [of ?vs, OF rest f' r'])
  with step maps show ?case
    by (simp add: e)
qed

lemma formatPathname_filled:
  assumes "plain_template template" and "plain_params entries"
  shows "formatPathname template (Some entries) =
           fill_template (map_of (stringified entries)) template"
proof -
  have "foldl (\<lambda>result (key, v). js_replace result (CHR ''['' # key @ '']'') (ToString v))
          (fill_template Map.empty template) entries
        = fill_template (Map.empty ++ map_of (stringified entries)) template"
    by (rule formatPathname_fold [OF assms]) simp_all
  then show ?thesis
    by (simp add: formatPathname_def fill_template_empty)
qed

text \<open>
  Claim C8, amended. \<open>formatPathname\<close> is a total function: it has no error to
  raise. For a template whose placeholder names are pairwise distinct and have no
  opening bracket, and params whose keys are not empty and have no closing bracket and
  whose values are strings or exact numbers that, as strings, have no opening bracket
  and no dollar sign, the result is the template with every placeholder whose key is
  in the params replaced by the value as a string and every other placeholder left as
  it is written. Without params the template is returned unchanged, whatever the
  template.
\<close>

theorem formatPathname_fills_placeholders:
  assumes "plain_template template" and "plain_params entries"
  shows "formatPathname template (Some entries) =
           fill_template (map_of (stringified entries)) template
         \<and> formatPathname template None = template"
  using formatPathname_filled [OF assms] by (simp add: formatPathname_def)

text \<open>
  Claim C8, an instance: two of three placeholders have a value, one of them the
  number 3; the third placeholder stays.
\<close>

theorem formatPathname_example:
  "plain_template ''/news/[articleSlug]-[articleId]/[page]''
   \<and> plain_params [(''articleSlug'', PString ''launch-party''), (''articleId'', PNumber 3)]
   \<and> formatPathname ''/news/[articleSlug]-[articleId]/[page]''
        (Some [(''articleSlug'', PString ''launch-party''), (''articleId'', PNumber 3)])
      = ''/news/launch-party-3/[page]''
   \<and> formatPathname ''/news/[articleSlug]-[articleId]/[page]'' None
      = ''/news/[articleSlug]-[articleId]/[page]''"
proof -
  let ?t = "''/news/[articleSlug]-[articleId]/[page]''"
  let ?ps = "[(''articleSlug'', PString ''launch-party''), (''articleId'', PNumber 3)]"
  have sc: "scan_template ?t =
      map Literal ''/news/'' @ [Placeholder ''articleSlug'', Literal CHR ''-'',
        Placeholder ''articleId'', Literal CHR ''/'', Placeholder ''page'']"
    by (simp add: match_placeholder_def)
  have t: "plain_template ?t"
    unfolding plain_template_def placeholder_names_def sc by simp
  have p: "plain_params ?ps"
    by (simp add: plain_params_def plain_key_def plain_value_def exact_number_def ToString_def
        digit_char_def)
  have "fill_template (map_of (stringified ?ps)) ?t = ''/news/launch-party-3/[page]''"
    unfolding fill_template_def sc
    by (simp add: stringified_def ToString_def digit_char_def)
  with formatPathname_fills_placeholders [OF t p] t p show ?thesis
    by simp
qed

text \<open>
  Claim C8 as stated fails. Only the first occurrence of a repeated placeholder is
  replaced; a value \<open>$&\<close> is read as a replacement pattern and puts the placeholder
  back; a value that spells a later placeholder is replaced in its turn, and the real
  placeholder is not; a key with brackets removes two placeholders that have no key;
  and a key is found inside a placeholder whose name has an opening bracket. In each
  case the second line is the template filled in as the claim describes it.
\<close>

theorem formatPathname_claim_fails:
  "formatPathname ''/[a]/[a]'' (Some [(''a'', PString ''x'')]) = ''/x/[a]''
   \<and> fill_template (map_of (stringified [(''a'', PString ''x'')])) ''/[a]/[a]'' = ''/x/x''
   \<and> formatPathname ''/[a]'' (Some [(''a'', PString ''$&'')]) = ''/[a]''
   \<and> fill_template (map_of (stringified [(''a'', PString ''$&'')])) ''/[a]'' = ''/$&''
   \<and> formatPathname ''/[a]/[b]'' (Some [(''a'', PString ''[b]''), (''b'', PString ''x'')]) = ''/x/[b]''
   \<and> fill_template (map_of (stringified [(''a'', PString ''[b]''), (''b'', PString ''x'')])) ''/[a]/[b]''
        = ''/[b]/x''
   \<and> formatPathname ''/[a][b]'' (Some [(''a][b'', PString ''x'')]) = ''/x''
   \<and> fill_template (map_of (stringified [(''a][b'', PString ''x'')])) ''/[a][b]'' = ''/[a][b]''
   \<and> formatPathname ''/[[a]'' (Some [(''a'', PString ''x'')]) = ''/[x''
   \<and> fill_template (map_of (stringified [(''a'', PString ''x'')])) ''/[[a]'' = ''/[[a]''"
  by (simp add: formatPathname_def js_replace_def fill_template_def stringified_def ToString_def
      match_placeholder_def)

section \<open>Extracting the parameters of a formatted pathname\<close>

subsection \<open>The regular expression of a template\<close>





subsection \<open>The greedy match is the first of all matches\<close>





subsection \<open>Collecting the parameters\<close>





subsection \<open>The round trip\<close>





section \<open>The domain selector\<close>

text \<open>
  Claim C1 as stated fails: for the two domains of the specification, a.com being the
  domain of the current host, the target locale \<open>de\<close> and the domains that support
  \<open>de\<close>, the selected domain is not b.com.
\<close>

theorem getBestMatchingDomain_not_b_com:
  "getBestMatchingDomain (Some example_a_com) ''de''
     (filter (isLocaleSupportedOnDomain ''de'') [example_a_com, example_b_com])
   \<noteq> Some example_b_com"
  by (simp add: getBestMatchingDomain_def isLocaleSupportedOnDomain_def example_a_com_def
      example_b_com_def)

text \<open>
  Claim C1, amended: that call returns the a.com record. The domain a.com declares
  no list of locales, so it supports every locale and the first priority (stay on the
  current domain) applies. When a.com is restricted to English, the same call
  returns b.com, by the second priority.
\<close>

theorem getBestMatchingDomain_example:
  "getBestMatchingDomain (Some example_a_com) ''de''
     (filter (isLocaleSupportedOnDomain ''de'') [example_a_com, example_b_com])
   = Some example_a_com
   \<and> getBestMatchingDomain (Some example_a_com_en) ''de''
     (filter (isLocaleSupportedOnDomain ''de'') [example_a_com_en, example_b_com])
   = Some example_b_com"
  by (simp add: getBestMatchingDomain_def isLocaleSupportedOnDomain_def example_a_com_def
      example_b_com_def example_a_com_en_def)

section \<open>Middleware\<close>

lemma cur_locale_middleware_locals [simp]:
  "cur_locale (middleware_locals env config request) = resolved_locale env config request"
  by (simp add: middleware_locals_def resolved_locale_def split: prod.splits)

lemma hasOutdatedCookie_middleware_locals [simp]:
  "hasOutdatedCookie (middleware_locals env config request) =
     (cookies request (COOKIE_LOCALE_NAME env) \<noteq> Some (resolved_locale env config request))"
  by (simp add: middleware_locals_def resolved_locale_def split: prod.splits)

lemma decision_set_link_header [simp]:
  "decision (set_link_header env config request r) = decision r"
  by (simp add: set_link_header_def)

lemma decision_set_locale_cookie [simp]:
  "decision (set_locale_cookie env lc r) = decision r"
  by (simp add: set_locale_cookie_def)

lemma forwarded_set_link_header [simp]:
  "forwarded_headers (set_link_header env config request r) = forwarded_headers r"
  by (simp add: set_link_header_def)

lemma forwarded_set_locale_cookie [simp]:
  "forwarded_headers (set_locale_cookie env lc r) = forwarded_headers r"
  by (simp add: set_locale_cookie_def)

lemma cookies_set_link_header [simp]:
  "response_cookies (set_link_header env config request r) = response_cookies r"
  by (simp add: set_link_header_def)

lemma link_set_locale_cookie [simp]:
  "link_header (set_locale_cookie env lc r) = link_header r"
  by (simp add: set_locale_cookie_def)

lemma rewrite_fields [simp]:
  "decision (rewrite env request lc u) = Rewrite (new_URL env u (url request))"
  "forwarded_headers (rewrite env request lc u) = Some (getResponseInit env request lc)"
  "response_cookies (rewrite env request lc u) = []"
  "link_header (rewrite env request lc u) = None"
  by (simp_all add: rewrite_def)

lemma next_response_fields [simp]:
  "decision (next_response env request lc) = Next"
  "forwarded_headers (next_response env request lc) = Some (getResponseInit env request lc)"
  "response_cookies (next_response env request lc) = []"
  "link_header (next_response env request lc) = None"
  by (simp_all add: next_response_def)

lemma redirect_fields [simp]:
  "decision (redirect env config request lc u h) =
     Redirect (redirect_target env config request lc u h)"
  "forwarded_headers (redirect env config request lc u h) = None"
  "response_cookies (redirect env config request lc u h) = []"
  "link_header (redirect env config request lc u h) = None"
  by (simp_all add: redirect_def)

lemma fresh_rewrite [simp]: "fresh_response env request lc (rewrite env request lc u)"
  by (simp add: fresh_response_def)

lemma fresh_next [simp]: "fresh_response env request lc (next_response env request lc)"
  by (simp add: fresh_response_def)

lemma fresh_redirect [simp]: "fresh_response env request lc (redirect env config request lc u h)"
  by (simp add: fresh_response_def)

lemma fresh_root: "fresh_response env request lc (root_response env config request lc)"
  by (simp add: root_response_def Let_def)

lemma fresh_localized:
  "localized_response env config request lc = Some r \<Longrightarrow> fresh_response env request lc r"
  by (auto simp: localized_response_def Let_def split: option.splits if_splits)

lemma fresh_prefix: "fresh_response env request lc (prefix_response env config request lc)"
  by (simp add: prefix_response_def Let_def split: option.splits)

lemma fresh_routing: "fresh_response env request lc (routing_response env config request lc)"
  by (auto simp: routing_response_def Let_def fresh_root fresh_prefix fresh_localized
      split: option.splits)

lemma middleware_processed:
  "request_matches env matcher request \<Longrightarrow>
   middleware env config matcher request =
     set_link_header env config request
       (set_locale_cookie env (middleware_locals env config request)
          (routing_response env config request (middleware_locals env config request)))"
  by (simp add: middleware_def Let_def)

lemma redirect_target_no_domains:
  "domainConfigs lc = [] \<Longrightarrow>
   redirect_target env config request lc u None = new_URL env u (url request)"
  by (simp add: redirect_target_def)

lemma example_config_defaults:
  "fst (receiveConfig example_config) =
     \<lparr>locales = [''en'', ''de''], defaultLocale = ''en'', localePrefix = as_needed,
      domains = None, alternateLinks = True, localeDetection = True, pathnames = None\<rparr>"
  by (simp add: receiveConfig_def handleConfigDeprecations_def example_config_def)

lemma example_request_matches [simp]: "request_matches env None request"
  by (simp add: request_matches_def)

text \<open>
  Claim C4, amended: for a processed request whose pathname is \<open>/\<close>, the target is
  \<open>/<locale>\<close> followed by the search string. The response is a rewrite to it when the
  prefix policy is \<open>never\<close>, or \<open>as-needed\<close> with the resolved locale being the
  applicable default locale; otherwise it is the redirect that \<open>redirect\<close> makes of that
  target, which is the URL of the target itself when no configured domain supports the
  locale.
\<close>

theorem root_rewrite_or_redirect:
  assumes "request_matches env matcher request"
    and "pathname (nextUrl request) = ''/''"
  shows "(let lc = middleware_locals env config request;
              target = CHR ''/'' # resolved_locale env config request @ search (nextUrl request)
          in decision (middleware env config matcher request) =
               (if localePrefix config = never \<or>
                   (localePrefix config = as_needed \<and> hasMatchedDefaultLocale lc)
                then Rewrite (new_URL env target (url request))
                else Redirect (redirect_target env config request lc target None))
             \<and> (domainConfigs lc = [] \<longrightarrow>
                  redirect_target env config request lc target None
                    = new_URL env target (url request)))"
  using assms
  by (auto simp add: middleware_processed routing_response_def Let_def root_response_def
      getPathWithSearch_def redirect_target_no_domains)

lemma example_two_domains_config:
  "fst (receiveConfig (example_config\<lparr>cfg_domains := Some [example_a_com, example_b_com]\<rparr>)) =
     \<lparr>locales = [''en'', ''de''], defaultLocale = ''en'', localePrefix = as_needed,
      domains = Some [example_a_com, example_b_com], alternateLinks = True,
      localeDetection = True, pathnames = None\<rparr>"
  by (simp add: receiveConfig_def handleConfigDeprecations_def example_config_def
      migrate_domain_def example_a_com_def example_b_com_def)

text \<open>
  Claim C4 as stated fails under domain routing: on a host that is none of the
  configured domains, with the policy \<open>as-needed\<close>, a request for \<open>/\<close> that resolves to
  \<open>de\<close> (not the default locale \<open>en\<close>) is redirected to the root of b.com, the domain
  whose default locale is \<open>de\<close>, not to \<open>/de\<close>.
\<close>

theorem root_redirect_to_other_domain:
  "pathname (nextUrl (example_request ''localhost'' ''/'' '''' (Some ''de''))) = ''/''
   \<and> localePrefix (fst (receiveConfig
         (example_config\<lparr>cfg_domains := Some [example_a_com, example_b_com]\<rparr>))) = as_needed
   \<and> resolved_locale example_env_de
         (fst (receiveConfig (example_config\<lparr>cfg_domains := Some [example_a_com, example_b_com]\<rparr>)))
         (example_request ''localhost'' ''/'' '''' (Some ''de'')) = ''de''
   \<and> decision (middleware example_env_de
         (fst (receiveConfig (example_config\<lparr>cfg_domains := Some [example_a_com, example_b_com]\<rparr>)))
         None (example_request ''localhost'' ''/'' '''' (Some ''de'')))
       = Redirect \<lparr>host = ''b.com'', pathname = ''/'', search = ''''\<rparr>"
  unfolding example_two_domains_config
  by (simp add: middleware_def Let_def routing_response_def root_response_def
      middleware_locals_def resolved_locale_def example_env_def example_env_de_def
      example_request_def simple_new_URL_def example_a_com_def example_b_com_def
      redirect_def redirect_target_def getPathWithSearch_def set_link_header_def
      set_locale_cookie_def request_matches_def getBestMatchingDomain_def
      isLocaleSupportedOnDomain_def truthy_def js_replace_def)

text \<open>
  Claim C4, the two instances it names: with the policy \<open>as-needed\<close> and the default
  locale \<open>en\<close>, a request for \<open>/\<close> that resolves to \<open>en\<close> is rewritten to \<open>/en\<close>, one
  that resolves to \<open>de\<close> is redirected to \<open>/de\<close>.
\<close>

theorem root_rewrite_or_redirect_examples:
  "request_matches example_env None (example_request ''x.org'' ''/'' '''' (Some ''en''))
   \<and> pathname (nextUrl (example_request ''x.org'' ''/'' '''' (Some ''en''))) = ''/''
   \<and> localePrefix (fst (receiveConfig example_config)) = as_needed
   \<and> decision (middleware example_env (fst (receiveConfig example_config)) None
        (example_request ''x.org'' ''/'' '''' (Some ''en'')))
      = Rewrite \<lparr>host = ''x.org'', pathname = ''/en'', search = ''''\<rparr>
   \<and> decision (middleware example_env (fst (receiveConfig example_config)) None
        (example_request ''x.org'' ''/'' '''' (Some ''de'')))
      = Redirect \<lparr>host = ''x.org'', pathname = ''/de'', search = ''''\<rparr>"
proof -
  let ?cfg = "fst (receiveConfig example_config)"
  let ?en = "example_request ''x.org'' ''/'' '''' (Some ''en'')"
  let ?de = "example_request ''x.org'' ''/'' '''' (Some ''de'')"
  have m: "request_matches example_env None ?en" "request_matches example_env None ?de"
    by simp_all
  have p: "pathname (nextUrl ?en) = ''/''" "pathname (nextUrl ?de) = ''/''"
    by (simp_all add: example_request_def)
  from root_rewrite_or_redirect [OF m(1) p(1), of ?cfg]
       root_rewrite_or_redirect [OF m(2) p(2), of ?cfg] m p
  show ?thesis
    unfolding example_config_defaults
    by (simp add: Let_def middleware_locals_def resolved_locale_def example_env_def
        example_request_def simple_new_URL_def)
qed

subsection \<open>Unprefixed pathnames\<close>


lemma example_a_com_config:
  "fst (receiveConfig (example_config\<lparr>cfg_localePrefix := p, cfg_domains := Some [example_a_com]\<rparr>)) =
     \<lparr>locales = [''en'', ''de''], defaultLocale = ''en'',
      localePrefix = (case p of None \<Rightarrow> as_needed | Some x \<Rightarrow> x),
      domains = Some [example_a_com], alternateLinks = True, localeDetection = True,
      pathnames = None\<rparr>"
  by (simp add: receiveConfig_def handleConfigDeprecations_def example_config_def
      migrate_domain_def example_a_com_def)



subsection \<open>The locale cookie\<close>

lemma cookies_routing [simp]:
  "response_cookies (routing_response env config request lc) = []"
  using fresh_routing [of env request lc config] by (simp add: fresh_response_def)

lemma link_routing [simp]:
  "link_header (routing_response env config request lc) = None"
  using fresh_routing [of env request lc config] by (simp add: fresh_response_def)

lemma forwarded_routing:
  "forwarded_headers (routing_response env config request lc) =
     (case decision (routing_response env config request lc) of
        Redirect u \<Rightarrow> None
      | _ \<Rightarrow> Some (getResponseInit env request lc))"
  using fresh_routing [of env request lc config]
  by (simp add: fresh_response_def split: Decision.splits)

text \<open>
  Claim C5: for a processed request whose locale cookie is not the resolved locale
  (or is missing), the response sets the locale cookie to the resolved locale with
  \<open>sameSite\<close> \<open>strict\<close>, and sets no other cookie, whatever the decision.
\<close>

theorem outdated_cookie_is_set:
  assumes "request_matches env matcher request"
    and "cookies request (COOKIE_LOCALE_NAME env) \<noteq> Some (resolved_locale env config request)"
  shows "response_cookies (middleware env config matcher request) =
           [\<lparr>cookie_name = COOKIE_LOCALE_NAME env,
             cookie_value = resolved_locale env config request,
             cookie_sameSite = ''strict''\<rparr>]"
  using assms by (simp add: middleware_processed set_locale_cookie_def)

lemma example_config_prefix:
  "fst (receiveConfig (example_config\<lparr>cfg_localePrefix := p\<rparr>)) =
     \<lparr>locales = [''en'', ''de''], defaultLocale = ''en'',
      localePrefix = (case p of None \<Rightarrow> as_needed | Some x \<Rightarrow> x),
      domains = None, alternateLinks = True, localeDetection = True,
      pathnames = None\<rparr>"
  by (simp add: receiveConfig_def handleConfigDeprecations_def example_config_def)

lemmas eval_middleware =
  middleware_def Let_def routing_response_def localized_response_def root_response_def
  prefix_response_def getKnownLocaleFromPathname_def getLocaleFromPathname_def getBasePath_def
  js_replace_def middleware_locals_def resolved_locale_def example_env_def example_env_a_com_def
  example_request_def simple_new_URL_def example_a_com_def rewrite_def redirect_def
  next_response_def getResponseInit_def
  redirect_target_def getPathWithSearch_def set_link_header_def set_locale_cookie_def
  request_matches_def getBestMatchingDomain_def isLocaleSupportedOnDomain_def truthy_def
  getAlternateLinksHeaderValue_def

text \<open>
  Claim C5, three instances with the cookie \<open>en\<close> and German resolved: a rewrite, a
  redirect and a pass-through.
\<close>

theorem outdated_cookie_examples:
  "(let req = example_request ''x.org'' ''/about'' '''' (Some ''en'');
        cfg = fst (receiveConfig (example_config\<lparr>cfg_localePrefix := Some never\<rparr>));
        r = middleware example_env_de cfg None req
    in request_matches example_env_de None req
       \<and> cookies req (COOKIE_LOCALE_NAME example_env_de) = Some ''en''
       \<and> resolved_locale example_env_de cfg req = ''de''
       \<and> decision r = Rewrite \<lparr>host = ''x.org'', pathname = ''/de/about'', search = ''''\<rparr>
       \<and> response_cookies r =
           [\<lparr>cookie_name = ''NEXT_LOCALE'', cookie_value = ''de'', cookie_sameSite = ''strict''\<rparr>])
   \<and> (let req = example_request ''x.org'' ''/about'' '''' (Some ''en'');
        cfg = fst (receiveConfig example_config);
        r = middleware example_env_de cfg None req
    in decision r = Redirect \<lparr>host = ''x.org'', pathname = ''/de/about'', search = ''''\<rparr>
       \<and> response_cookies r =
           [\<lparr>cookie_name = ''NEXT_LOCALE'', cookie_value = ''de'', cookie_sameSite = ''strict''\<rparr>])
   \<and> (let req = example_request ''x.org'' ''/de/about'' '''' (Some ''en'');
        cfg = fst (receiveConfig example_config);
        r = middleware example_env_de cfg None req
    in decision r = Next
       \<and> response_cookies r =
           [\<lparr>cookie_name = ''NEXT_LOCALE'', cookie_value = ''de'', cookie_sameSite = ''strict''\<rparr>])"
proof -
  let ?rq = "example_request ''x.org'' ''/about'' '''' (Some ''en'')"
  let ?rq' = "example_request ''x.org'' ''/de/about'' '''' (Some ''en'')"
  let ?never = "fst (receiveConfig (example_config\<lparr>cfg_localePrefix := Some never\<rparr>))"
  let ?cfg = "fst (receiveConfig example_config)"
  have m: "request_matches example_env_de None ?rq" "request_matches example_env_de None ?rq'"
    by simp_all
  have c: "cookies ?rq (COOKIE_LOCALE_NAME example_env_de) \<noteq> Some (resolved_locale example_env_de cfg ?rq)"
          "cookies ?rq' (COOKIE_LOCALE_NAME example_env_de) \<noteq> Some (resolved_locale example_env_de cfg ?rq')"
    for cfg
    by (simp_all add: example_request_def example_env_de_def example_env_def resolved_locale_def)
  have d: "decision (middleware example_env_de ?never None ?rq)
             = Rewrite \<lparr>host = ''x.org'', pathname = ''/de/about'', search = ''''\<rparr>"
          "decision (middleware example_env_de ?cfg None ?rq)
             = Redirect \<lparr>host = ''x.org'', pathname = ''/de/about'', search = ''''\<rparr>"
          "decision (middleware example_env_de ?cfg None ?rq') = Next"
    unfolding example_config_prefix example_config_defaults
    by (simp_all add: eval_middleware example_env_de_def)
  from outdated_cookie_is_set [OF m(1) c(1), of ?never]
       outdated_cookie_is_set [OF m(1) c(1), of ?cfg]
       outdated_cookie_is_set [OF m(2) c(2), of ?cfg] m d
  show ?thesis
    by (simp add: Let_def example_request_def example_env_de_def example_env_def
        resolved_locale_def)
qed

subsection \<open>A request without the locale cookie\<close>

text \<open>
  Claim C9 as stated fails: a request for \<open>/\<close> without the cookie, under the policy
  \<open>always\<close>, is redirected, and a redirect hands on no request headers.
\<close>

theorem no_cookie_redirect_forwards_nothing:
  "cookies (example_request ''x.org'' ''/'' '''' None) (COOKIE_LOCALE_NAME example_env) = None
   \<and> request_matches example_env None (example_request ''x.org'' ''/'' '''' None)
   \<and> decision (middleware example_env
        (fst (receiveConfig (example_config\<lparr>cfg_localePrefix := Some always\<rparr>))) None
        (example_request ''x.org'' ''/'' '''' None))
      = Redirect \<lparr>host = ''x.org'', pathname = ''/en'', search = ''''\<rparr>
   \<and> forwarded_headers (middleware example_env
        (fst (receiveConfig (example_config\<lparr>cfg_localePrefix := Some always\<rparr>))) None
        (example_request ''x.org'' ''/'' '''' None))
      = None"
  unfolding example_config_prefix
  by (simp add: eval_middleware)

text \<open>
  Claim C9, amended: for a processed request without the locale cookie, the response
  sets the cookie to the resolved locale; when the decision is a rewrite or a
  pass-through, the request headers handed on are those of the request with the
  locale header set to the resolved locale; a redirect hands on no request headers.
\<close>

theorem no_cookie_sets_cookie_and_header:
  assumes "request_matches env matcher request"
    and "cookies request (COOKIE_LOCALE_NAME env) = None"
  shows "response_cookies (middleware env config matcher request) =
           [\<lparr>cookie_name = COOKIE_LOCALE_NAME env,
             cookie_value = resolved_locale env config request,
             cookie_sameSite = ''strict''\<rparr>]
         \<and> forwarded_headers (middleware env config matcher request) =
             (case decision (middleware env config matcher request) of
                Redirect u \<Rightarrow> None
              | _ \<Rightarrow> Some ((headers request)
                             (HEADER_LOCALE_NAME env \<mapsto> resolved_locale env config request)))"
  using assms
  by (simp add: middleware_processed set_locale_cookie_def forwarded_routing
      getResponseInit_def split: Decision.splits)

text \<open>
  Claim C9, an instance: a request for \<open>/\<close> without the cookie, rewritten to \<open>/en\<close>.
\<close>

theorem no_cookie_example:
  "(let req = example_request ''x.org'' ''/'' '''' None;
        r = middleware example_env (fst (receiveConfig example_config)) None req
    in request_matches example_env None req
       \<and> cookies req (COOKIE_LOCALE_NAME example_env) = None
       \<and> decision r = Rewrite \<lparr>host = ''x.org'', pathname = ''/en'', search = ''''\<rparr>
       \<and> response_cookies r =
           [\<lparr>cookie_name = ''NEXT_LOCALE'', cookie_value = ''en'', cookie_sameSite = ''strict''\<rparr>]
       \<and> map_option (\<lambda>h. h ''X-NEXT-INTL-LOCALE'') (forwarded_headers r) = Some (Some ''en''))"
proof -
  let ?rq = "example_request ''x.org'' ''/'' '''' None"
  let ?cfg = "fst (receiveConfig example_config)"
  have m: "request_matches example_env None ?rq" by simp
  have c: "cookies ?rq (COOKIE_LOCALE_NAME example_env) = None"
    by (simp add: example_request_def example_env_def)
  have d: "decision (middleware example_env ?cfg None ?rq)
             = Rewrite \<lparr>host = ''x.org'', pathname = ''/en'', search = ''''\<rparr>"
    unfolding example_config_defaults by (simp add: eval_middleware)
  from no_cookie_sets_cookie_and_header [OF m c, of ?cfg] m c d
  show ?thesis
    by (simp add: Let_def example_config_defaults resolved_locale_def example_env_def
        example_request_def)
qed

subsection \<open>The alternate links\<close>

text \<open>
  Claim C6 as stated fails: with alternate links enabled, the policy \<open>as-needed\<close> and
  two locales, a request that the matcher rejects gets a response without the
  \<open>Link\<close> header.
\<close>

theorem link_header_skipped_by_matcher:
  "alternateLinks (fst (receiveConfig example_config))
   \<and> localePrefix (fst (receiveConfig example_config)) \<noteq> never
   \<and> length (locales (fst (receiveConfig example_config))) > 1
   \<and> \<not> request_matches example_env (Some [''/api''])
         (example_request ''x.org'' ''/about'' '''' None)
   \<and> link_header (middleware example_env (fst (receiveConfig example_config)) (Some [''/api''])
        (example_request ''x.org'' ''/about'' '''' None)) = None"
  unfolding example_config_defaults
  by (simp add: eval_middleware)

text \<open>
  Claim C6, amended: for a processed request, the response has the \<open>Link\<close> header if
  and only if alternate links are enabled, the prefix policy is not \<open>never\<close> and more
  than one locale is configured; its value then has one entry per locale, in their
  order, followed by one entry for \<open>x-default\<close>.
\<close>

theorem link_header_iff:
  assumes "request_matches env matcher request"
  shows "(link_header (middleware env config matcher request) \<noteq> None \<longleftrightarrow>
            alternateLinks config \<and> localePrefix config \<noteq> never \<and> length (locales config) > 1)
         \<and> (\<forall>v. link_header (middleware env config matcher request) = Some v \<longrightarrow>
               length v = length (locales config) + 1
               \<and> map hreflang v = locales config @ [''x-default''])"
  using assms
  by (auto simp add: middleware_processed set_link_header_def getAlternateLinksHeaderValue_def
      comp_def)

text \<open>
  Claim C6, an instance: two locales, three entries.
\<close>

theorem link_header_example:
  "(let req = example_request ''x.org'' ''/'' '''' None;
        cfg = fst (receiveConfig example_config);
        r = middleware example_env cfg None req
    in request_matches example_env None req
       \<and> alternateLinks cfg \<and> localePrefix cfg \<noteq> never \<and> length (locales cfg) = 2
       \<and> map_option length (link_header r) = Some 3
       \<and> map_option (map hreflang) (link_header r) = Some [''en'', ''de'', ''x-default''])"
proof -
  let ?rq = "example_request ''x.org'' ''/'' '''' None"
  let ?cfg = "fst (receiveConfig example_config)"
  have m: "request_matches example_env None ?rq" by simp
  from link_header_iff [OF m, of ?cfg] m
  show ?thesis
    by (auto simp add: Let_def example_config_defaults)
qed

subsection \<open>Setup\<close>

text \<open>
  Claim C7 as stated fails: a configuration whose default locale \<open>fr\<close> is not among its
  locales is set up without an error, and a request for \<open>/\<close> is then rewritten to
  \<open>/fr\<close>.
\<close>

theorem bad_config_is_accepted:
  "cfg_defaultLocale example_bad_config \<notin> set (cfg_locales example_bad_config)
   \<and> \<not> isl (createMiddleware example_env example_bad_config)
   \<and> defaultLocale (fst (receiveConfig example_bad_config)) = ''fr''
   \<and> decision (middleware example_env (fst (receiveConfig example_bad_config)) None
        (example_request ''x.org'' ''/'' '''' None))
      = Rewrite \<lparr>host = ''x.org'', pathname = ''/fr'', search = ''''\<rparr>"
  by (simp add: createMiddleware_def example_bad_config_def example_config_def
      receiveConfig_def handleConfigDeprecations_def eval_middleware)

text \<open>
  Domains made from the deprecated \<open>routing\<close> option carry no deprecated \<open>locale\<close>
  of their own: the second migration leaves them as they are and reports nothing.
\<close>

lemma migrate_new_domain:
  "migrate_domain \<lparr>domain = d, domain_defaultLocale = l, domain_locales = Some [l],
     domain_locale = None\<rparr>
   = \<lparr>domain = d, domain_defaultLocale = l, domain_locales = Some [l], domain_locale = None\<rparr>"
  by (simp add: migrate_domain_def)

lemma migrate_new_domains:
  "map migrate_domain
     (map (\<lambda>(d, l). \<lparr>domain = d, domain_defaultLocale = l, domain_locales = Some [l],
                      domain_locale = None\<rparr>) ds)
   = map (\<lambda>(d, l). \<lparr>domain = d, domain_defaultLocale = l, domain_locales = Some [l],
                     domain_locale = None\<rparr>) ds"
  by (induction ds) (auto simp: migrate_new_domain)

lemma new_domains_silent:
  "concat (map (\<lambda>cur. if truthy (domain_locale cur) then [DomainLocaleDeprecated] else [])
     (map (\<lambda>(d, l). \<lparr>domain = d, domain_defaultLocale = l, domain_locales = Some [l],
                      domain_locale = None\<rparr>) ds)) = []"
  by (induction ds) (auto simp: truthy_def)

text \<open>
  The completed configuration and the diagnostics, written out in terms of the
  configuration that was passed.
\<close>

lemma receiveConfig_explicit:
  "receiveConfig config =
     (\<lparr>locales = cfg_locales config,
       defaultLocale = cfg_defaultLocale config,
       localePrefix =
         (case cfg_routing config of
            Some (RoutingPrefix p) \<Rightarrow> (case p of None \<Rightarrow> as_needed | Some x \<Rightarrow> x)
          | _ \<Rightarrow> (case cfg_localePrefix config of None \<Rightarrow> as_needed | Some x \<Rightarrow> x)),
       domains =
         (case cfg_routing config of
            Some (RoutingDomain ds) \<Rightarrow>
              Some (map (\<lambda>(d, l). \<lparr>domain = d, domain_defaultLocale = l,
                                   domain_locales = Some [l], domain_locale = None\<rparr>) ds)
          | _ \<Rightarrow>
              map_option
                (map (\<lambda>cur. case domain_locale cur of
                             None \<Rightarrow> cur
                           | Some l \<Rightarrow>
                               if l = [] then cur
                               else cur\<lparr>domain_defaultLocale := l, domain_locales := Some [l]\<rparr>))
                (cfg_domains config)),
       alternateLinks = (case cfg_alternateLinks config of None \<Rightarrow> True | Some b \<Rightarrow> b),
       localeDetection = (case cfg_localeDetection config of None \<Rightarrow> True | Some b \<Rightarrow> b),
       pathnames = cfg_pathnames config\<rparr>,
      (case cfg_routing config of None \<Rightarrow> [] | Some r \<Rightarrow> [RoutingOptionDeprecated])
      @ (case cfg_routing config of
           Some (RoutingDomain ds) \<Rightarrow> []
         | _ \<Rightarrow>
             (case cfg_domains config of
                None \<Rightarrow> []
              | Some ds \<Rightarrow>
                  concat (map (\<lambda>cur. if truthy (domain_locale cur)
                                      then [DomainLocaleDeprecated] else []) ds))))"
proof -
  have m: "migrate_domain = (\<lambda>cur. case domain_locale cur of
                             None \<Rightarrow> cur
                           | Some l \<Rightarrow>
                               if l = [] then cur
                               else cur\<lparr>domain_defaultLocale := l, domain_locales := Some [l]\<rparr>)"
    by (rule ext) (simp add: migrate_domain_def)
  show ?thesis
  proof (cases "cfg_routing config")
    case None
    then show ?thesis
      by (cases "cfg_domains config")
         (simp_all add: receiveConfig_def handleConfigDeprecations_def m)
  next
    case (Some routing)
    show ?thesis
    proof (cases routing)
      case (RoutingPrefix p)
      with Some show ?thesis
        by (cases "cfg_domains config")
           (simp_all add: receiveConfig_def handleConfigDeprecations_def m)
    next
      case (RoutingDomain ds)
      with Some show ?thesis
        by (simp add: receiveConfig_def handleConfigDeprecations_def migrate_new_domains
            new_domains_silent del: map_map)
    qed
  qed
qed

text \<open>
  Claim C7, amended: setup validates nothing and never fails. For every
  configuration \<open>createMiddleware\<close> returns the middleware of this completed
  configuration: the locales, the default locale and the pathnames as they are given;
  as the prefix policy the \<open>prefix\<close> of a deprecated \<open>routing\<close> option of type \<open>prefix\<close>,
  otherwise the given \<open>localePrefix\<close>, and \<open>as-needed\<close> when that is undefined; as the
  domains those of a deprecated \<open>routing\<close> option of type \<open>domain\<close>, each with its
  \<open>locale\<close> as default locale and as its only locale, otherwise the given domains,
  where an entry with a deprecated non-empty \<open>locale\<close> gets it as default locale and as
  its only locale; alternate links and locale detection enabled unless they are
  given. The deprecation of \<open>routing\<close> is reported once, that of \<open>locale\<close> once for each
  given domain that has it.
\<close>

theorem setup_never_fails:
  "createMiddleware env config =
     Inr (middleware env
       \<lparr>locales = cfg_locales config,
        defaultLocale = cfg_defaultLocale config,
        localePrefix =
          (case cfg_routing config of
             Some (RoutingPrefix p) \<Rightarrow> (case p of None \<Rightarrow> as_needed | Some x \<Rightarrow> x)
           | _ \<Rightarrow> (case cfg_localePrefix config of None \<Rightarrow> as_needed | Some x \<Rightarrow> x)),
        domains =
          (case cfg_routing config of
             Some (RoutingDomain ds) \<Rightarrow>
               Some (map (\<lambda>(d, l). \<lparr>domain = d, domain_defaultLocale = l,
                                    domain_locales = Some [l], domain_locale = None\<rparr>) ds)
           | _ \<Rightarrow>
               map_option
                 (map (\<lambda>cur. case domain_locale cur of
                              None \<Rightarrow> cur
                            | Some l \<Rightarrow>
                                if l = [] then cur
                                else cur\<lparr>domain_defaultLocale := l, domain_locales := Some [l]\<rparr>))
                 (cfg_domains config)),
        alternateLinks = (case cfg_alternateLinks config of None \<Rightarrow> True | Some b \<Rightarrow> b),
        localeDetection = (case cfg_localeDetection config of None \<Rightarrow> True | Some b \<Rightarrow> b),
        pathnames = cfg_pathnames config\<rparr>
       (cfg_matcher config))
   \<and> snd (receiveConfig config) =
       (case cfg_routing config of None \<Rightarrow> [] | Some r \<Rightarrow> [RoutingOptionDeprecated])
       @ (case cfg_routing config of
            Some (RoutingDomain ds) \<Rightarrow> []
          | _ \<Rightarrow>
              (case cfg_domains config of
                 None \<Rightarrow> []
               | Some ds \<Rightarrow>
                   concat (map (\<lambda>cur. if truthy (domain_locale cur)
                                       then [DomainLocaleDeprecated] else []) ds)))"
  by (simp add: createMiddleware_def receiveConfig_explicit)

text \<open>
  Claim C7, an instance: the deprecated \<open>routing\<close> option of type \<open>domain\<close> with two
  domains, and a default locale \<open>fr\<close> that is not among the locales.
\<close>

theorem setup_never_fails_example:
  "cfg_defaultLocale example_legacy_config \<notin> set (cfg_locales example_legacy_config)
   \<and> createMiddleware example_env example_legacy_config =
       Inr (middleware example_env
         \<lparr>locales = [''en'', ''de''],
          defaultLocale = ''fr'',
          localePrefix = as_needed,
          domains = Some [\<lparr>domain = ''a.com'', domain_defaultLocale = ''en'',
                           domain_locales = Some [''en''], domain_locale = None\<rparr>,
                          \<lparr>domain = ''b.com'', domain_defaultLocale = ''de'',
                           domain_locales = Some [''de''], domain_locale = None\<rparr>],
          alternateLinks = True,
          localeDetection = True,
          pathnames = None\<rparr>
         None)
   \<and> snd (receiveConfig example_legacy_config) = [RoutingOptionDeprecated]"
  using setup_never_fails [of example_env example_legacy_config]
  by (simp add: example_legacy_config_def example_config_def)

subsection \<open>Redirects under domain routing\<close>

text \<open>
  What \<open>redirect\<close> does without a host argument when a domain is found: the host
  becomes that of the best-matching domain and, for its default locale under the
  policy \<open>as-needed\<close>, the first \<open>/<locale>\<close> is taken out of the pathname. On a
  pathname that starts with \<open>/<locale>\<close> this removes the prefix.
\<close>

lemma redirect_target_best_domain:
  assumes "domainConfigs lc \<noteq> []"
    and "getBestMatchingDomain (cur_domain lc) (cur_locale lc) (domainConfigs lc) = Some best"
    and "domain best \<noteq> []"
  shows "redirect_target env config request lc u None =
           set_host env
             (if domain_defaultLocale best = cur_locale lc \<and> localePrefix config = as_needed
              then set_pathname env (new_URL env u (url request))
                     (js_replace (pathname (new_URL env u (url request)))
                        (CHR ''/'' # cur_locale lc) [])
              else new_URL env u (url request))
             (domain best)"
  using assms by (simp add: redirect_target_def Let_def truthy_def)

lemma js_replace_prefix: "pat \<noteq> [] \<Longrightarrow> js_replace (pat @ rest) pat [] = rest"
  by (cases pat) (simp_all add: js_replace_def)

text \<open>
  Claim C10, the code at a request where it departs from the claim. On a.com (default
  locale \<open>en\<close>, policy \<open>as-needed\<close>) the pathname \<open>/en/docs/enterprise\<close> loses its
  prefix before \<open>redirect\<close> is called; \<open>redirect\<close> then removes the first \<open>/en\<close> it
  finds in \<open>/docs/enterprise\<close>, which is not a prefix.
\<close>

theorem redirect_strips_inner_occurrence:
  "localePrefix (fst (receiveConfig
      (example_config\<lparr>cfg_localePrefix := None, cfg_domains := Some [example_a_com]\<rparr>)))
     = as_needed
   \<and> getBasePath ''/en/docs/enterprise'' ''en'' = ''/docs/enterprise''
   \<and> getBestMatchingDomain (Some example_a_com) ''en'' [example_a_com] = Some example_a_com
   \<and> decision (middleware example_env_a_com
        (fst (receiveConfig
           (example_config\<lparr>cfg_localePrefix := None, cfg_domains := Some [example_a_com]\<rparr>)))
        None (example_request ''a.com'' ''/en/docs/enterprise'' '''' (Some ''en'')))
      = Redirect \<lparr>host = ''a.com'', pathname = ''/docsterprise'', search = ''''\<rparr>"
  unfolding example_a_com_config
  by (simp add: eval_middleware)

end
